theory Spec2Isabelle
  imports Complex_Main
begin

section \<open>The class \<open>InvertedPendulum\<close> of inverted-pendulum.hh\<close>

text \<open>
  The data members of the class, in the order of the header: the two public signals
  \<open>forceSIN\<close> and \<open>stateSOUT\<close>, then the four private parameters
  \<open>cartMass_\<close>, \<open>pendulumMass_\<close>, \<open>pendulumLength_\<close> and \<open>viscosity_\<close>
  (a name cannot end in an underscore here, so the fields are written without it).
  The type \<open>double\<close> is the type variable \<open>'d\<close>: the accessors below only store
  and return a value, so what they do holds for every representation of a double (NaN
  and the infinities included). The signal classes \<open>SignalPtr<Vector,int>\<close> and
  \<open>Signal<Vector,int>\<close> belong to the dynamic-graph library; they are the type
  variables \<open>'i\<close> and \<open>'o\<close>.
\<close>

record ('d, 'i, 'o) InvertedPendulum =
  forceSIN :: 'i
  stateSOUT :: 'o
  cartMass :: 'd
  pendulumMass :: 'd
  pendulumLength :: 'd
  viscosity :: 'd

subsection \<open>The parameter accessors (lines 118 to 155)\<close>

text \<open>
  Each setter is \<open>void\<close> and is one assignment to a field; it is modelled as the
  function from the object before the call to the object after it. Each getter is
  \<open>const\<close> and returns a field.
\<close>

definition setCartMass ::
  "'d \<Rightarrow> ('d, 'i, 'o) InvertedPendulum \<Rightarrow> ('d, 'i, 'o) InvertedPendulum" where
  "setCartMass inMass self = self\<lparr>cartMass := inMass\<rparr>"

definition getCartMass :: "('d, 'i, 'o) InvertedPendulum \<Rightarrow> 'd" where
  "getCartMass self = cartMass self"

definition setPendulumMass ::
  "'d \<Rightarrow> ('d, 'i, 'o) InvertedPendulum \<Rightarrow> ('d, 'i, 'o) InvertedPendulum" where
  "setPendulumMass inMass self = self\<lparr>pendulumMass := inMass\<rparr>"

definition getPendulumMass :: "('d, 'i, 'o) InvertedPendulum \<Rightarrow> 'd" where
  "getPendulumMass self = pendulumMass self"

definition setPendulumLength ::
  "'d \<Rightarrow> ('d, 'i, 'o) InvertedPendulum \<Rightarrow> ('d, 'i, 'o) InvertedPendulum" where
  "setPendulumLength inLength self = self\<lparr>pendulumLength := inLength\<rparr>"

definition getPendulumLength :: "('d, 'i, 'o) InvertedPendulum \<Rightarrow> 'd" where
  "getPendulumLength self = pendulumLength self"

section \<open>Doubles\<close>

text \<open>
  The arithmetic of the dynamics is done on doubles, and a double division by zero
  raises nothing: it gives an infinity or NaN. A double is therefore a real number or
  \<open>None\<close>, which stands for any non-finite value (either infinity or NaN). On
  finite values the operations are those of the reals (rounding and overflow are
  outside this model). A non-finite operand makes the result non-finite, as it does
  for a sum, a difference, a product, a sine or a cosine of doubles, and for a quotient
  with a non-finite dividend. A division by zero is non-finite whatever the dividend.
  (A finite value divided by an infinity would be zero, and the model has it
  non-finite. With a pendulum length of zero the determinant below is zero, or NaN
  once the angle is non-finite, and never an infinity, so that case does not arise in
  what is proved.)
\<close>

type_synonym double = "real option"

fun dadd :: "double \<Rightarrow> double \<Rightarrow> double" where
  "dadd (Some a) (Some b) = Some (a + b)"
| "dadd _ _ = None"

fun dsub :: "double \<Rightarrow> double \<Rightarrow> double" where
  "dsub (Some a) (Some b) = Some (a - b)"
| "dsub _ _ = None"

fun dmul :: "double \<Rightarrow> double \<Rightarrow> double" where
  "dmul (Some a) (Some b) = Some (a * b)"
| "dmul _ _ = None"

fun ddiv :: "double \<Rightarrow> double \<Rightarrow> double" where
  "ddiv (Some a) (Some b) = (if b = 0 then None else Some (a / b))"
| "ddiv _ _ = None"

fun dneg :: "double \<Rightarrow> double" where
  "dneg (Some a) = Some (- a)"
| "dneg None = None"

fun dsin :: "double \<Rightarrow> double" where
  "dsin (Some a) = Some (sin a)"
| "dsin None = None"

fun dcos :: "double \<Rightarrow> double" where
  "dcos (Some a) = Some (cos a)"
| "dcos None = None"

section \<open>The equation of motion\<close>

text \<open>
  The class comment of the header (lines 42 to 69) writes the equation of motion as
  \<open>M(q) q'' + N(q, q') q' + G(q) = F\<close> with \<open>q = (x, \<theta>)\<close>, and gives the
  three terms and the force; the matrix \<open>N\<close> is the one with the viscosity
  \<open>\<lambda>\<close> on its diagonal. The terms below are written from that comment, which
  section 4.1 of the specification repeats. The state is the vector
  \<open>(x, \<theta>, x', \<theta>')\<close> of dimension 4, the input the force \<open>F\<close>. The static
  constant \<open>gravity\<close> is declared in the header without its value, so it is the
  argument \<open>g\<close>.
\<close>

type_synonym vec2 = "double \<times> double"

text \<open>A 2 by 2 matrix, as its two rows.\<close>

type_synonym mat2 = "(double \<times> double) \<times> (double \<times> double)"

type_synonym State = "double \<times> double \<times> double \<times> double"

fun mat_vec :: "mat2 \<Rightarrow> vec2 \<Rightarrow> vec2" where
  "mat_vec ((a, b), (c, d)) (v1, v2) =
     (dadd (dmul a v1) (dmul b v2), dadd (dmul c v1) (dmul d v2))"

fun vec_sub :: "vec2 \<Rightarrow> vec2 \<Rightarrow> vec2" where
  "vec_sub (u1, u2) (v1, v2) = (dsub u1 v1, dsub u2 v2)"

fun velocity :: "State \<Rightarrow> vec2" where
  "velocity (x, th, dx, dth) = (dx, dth)"

fun massMatrix :: "(double, 'i, 'o) InvertedPendulum \<Rightarrow> State \<Rightarrow> mat2" where
  "massMatrix self (x, th, dx, dth) =
     ((dadd (cartMass self) (pendulumMass self),
       dneg (dmul (dmul (pendulumMass self) (pendulumLength self)) (dcos th))),
      (dneg (dmul (dmul (pendulumMass self) (pendulumLength self)) (dcos th)),
       dmul (pendulumMass self) (dmul (pendulumLength self) (pendulumLength self))))"

fun dampingMatrix :: "(double, 'i, 'o) InvertedPendulum \<Rightarrow> State \<Rightarrow> mat2" where
  "dampingMatrix self (x, th, dx, dth) =
     ((viscosity self,
       dmul (dmul (dmul (pendulumMass self) (pendulumLength self)) dth) (dsin th)),
      (Some 0, viscosity self))"

fun gravityVector :: "double \<Rightarrow> (double, 'i, 'o) InvertedPendulum \<Rightarrow> State \<Rightarrow> vec2" where
  "gravityVector g self (x, th, dx, dth) =
     (Some 0,
      dneg (dmul (dmul (dmul (pendulumMass self) (pendulumLength self)) g) (dsin th)))"

definition generalizedForce :: "double \<Rightarrow> vec2" where
  "generalizedForce F = (F, Some 0)"

text \<open>The right-hand side \<open>F - N(q, q') q' - G(q)\<close> of the system for \<open>q''\<close>.\<close>

definition rightHandSide ::
  "double \<Rightarrow> (double, 'i, 'o) InvertedPendulum \<Rightarrow> State \<Rightarrow> double \<Rightarrow> vec2" where
  "rightHandSide g self q F =
     vec_sub (vec_sub (generalizedForce F) (mat_vec (dampingMatrix self q) (velocity q)))
       (gravityVector g self q)"

subsection \<open>The acceleration\<close>

text \<open>
  The header only declares \<open>InvertedPendulum::computeDynamics\<close> (lines 186 to 190)
  and \<open>InvertedPendulum::incr\<close> (line 88); their bodies are in another file. How
  the acceleration is obtained and how a step is made is taken from sections 4.1 and
  4.2 of the specification.
\<close>

text \<open>
  Modelled from the spec: the determinant used by the body of \<open>computeDynamics\<close>,
  which is not in the header. Section 4.1: "determinant
  \<open>= (M + m) m l\<^sup>2 - (m l cos \<theta>)\<^sup>2\<close>".
\<close>

fun determinant :: "(double, 'i, 'o) InvertedPendulum \<Rightarrow> State \<Rightarrow> double" where
  "determinant self (x, th, dx, dth) =
     dsub
       (dmul (dmul (dadd (cartMass self) (pendulumMass self)) (pendulumMass self))
          (dmul (pendulumLength self) (pendulumLength self)))
       (dmul (dmul (dmul (pendulumMass self) (pendulumLength self)) (dcos th))
          (dmul (dmul (pendulumMass self) (pendulumLength self)) (dcos th)))"

text \<open>
  Modelled from the spec: the "closed-form 2 by 2 inversion" of section 4.1, in place of
  the body of \<open>computeDynamics\<close>, which is not in the header. The inverse of a matrix
  with rows \<open>(a, b)\<close> and \<open>(c, d)\<close> is the matrix with rows \<open>(d, -b)\<close> and
  \<open>(-c, a)\<close> over the determinant; \<open>solve2\<close> applies it to the right-hand side,
  dividing by the determinant it is given. "No singularity guard is applied": the
  division is made whatever the determinant is.
\<close>

fun solve2 :: "mat2 \<Rightarrow> double \<Rightarrow> vec2 \<Rightarrow> vec2" where
  "solve2 ((a, b), (c, d)) delta (r1, r2) =
     (ddiv (dsub (dmul d r1) (dmul b r2)) delta,
      ddiv (dsub (dmul a r2) (dmul c r1)) delta)"

text \<open>
  Modelled from the spec: the contract
  \<open>accel = computeAcceleration(state, control, params)\<close> of section 4.1, the part of
  \<open>computeDynamics\<close> (body not in the header) that obtains \<open>(x'', \<theta>'')\<close>.
\<close>

definition computeAcceleration ::
  "double \<Rightarrow> (double, 'i, 'o) InvertedPendulum \<Rightarrow> State \<Rightarrow> double \<Rightarrow> vec2" where
  "computeAcceleration g self q F =
     solve2 (massMatrix self q) (determinant self q) (rightHandSide g self q F)"

subsection \<open>One step, and a sequence of steps\<close>

text \<open>
  What a step can raise. Sections 4.2 and 7 of the specification: "Failure modes: none
  raised explicitly", "there is no Error state", "no fallback values". The result of a
  step is a sum, so that the absence of a raise is a property of \<open>advance\<close> and not of
  its type.
\<close>

datatype error = Raised

text \<open>
  Modelled from the spec: the contract
  \<open>nextState = advance(state, control, params, dt)\<close> of section 4.2, for the bodies of
  \<open>incr\<close> and \<open>computeDynamics\<close>, which are not in the header. Step 1 is the
  acceleration, step 2 the new velocities \<open>v' = (x', \<theta>') + accel dt\<close>, step 3 the
  new positions \<open>p' = (x, \<theta>) + v' dt\<close> from the new velocities, step 4 the state
  \<open>(p'.x, p'.\<theta>, v'.x', v'.\<theta>')\<close>. No step raises.
\<close>

fun advance ::
  "double \<Rightarrow> (double, 'i, 'o) InvertedPendulum \<Rightarrow> State \<Rightarrow> double \<Rightarrow> double
     \<Rightarrow> error + State" where
  "advance g self (x, th, dx, dth) F dt =
     (case computeAcceleration g self (x, th, dx, dth) F of
        (ddx, ddth) \<Rightarrow>
          let dx' = dadd dx (dmul ddx dt);
              dth' = dadd dth (dmul ddth dt);
              x' = dadd x (dmul dx' dt);
              th' = dadd th (dmul dth' dt)
          in Inr (x', th', dx', dth'))"

text \<open>
  Modelled from the spec: successive advance requests on one entity (section 4.3: each
  request runs the integrator on the previously stored state and stores the result),
  each with its own force and time step. A raise would end the sequence.
\<close>

fun advance_all ::
  "double \<Rightarrow> (double, 'i, 'o) InvertedPendulum \<Rightarrow> State \<Rightarrow> (double \<times> double) list
     \<Rightarrow> error + State" where
  "advance_all g self q [] = Inr q"
| "advance_all g self q ((F, dt) # steps) =
     (case advance g self q F dt of
        Inl e \<Rightarrow> Inl e
      | Inr q' \<Rightarrow> advance_all g self q' steps)"

section \<open>Properties of the accessors\<close>

text \<open>
  Claim C6. For every double \<open>v\<close> (zero, negative and non-finite values included, as
  \<open>v\<close> ranges over the whole type), \<open>setCartMass(v)\<close> followed by
  \<open>getCartMass()\<close> returns exactly \<open>v\<close>, and likewise for the pendulum mass and
  the pendulum length. No setter rejects, clamps or validates its argument: a setter
  has no failing branch, and the getter hands back the argument as it was given.
\<close>

theorem set_then_get:
  "getCartMass (setCartMass v self) = v \<and>
   getPendulumMass (setPendulumMass v self) = v \<and>
   getPendulumLength (setPendulumLength v self) = v"
  by (simp add: setCartMass_def getCartMass_def setPendulumMass_def getPendulumMass_def
      setPendulumLength_def getPendulumLength_def)

section \<open>A pendulum of length zero\<close>

text \<open>A state with no finite component stays so, whatever the parameters are.\<close>

lemma advance_non_finite:
  "advance g self (None, None, None, None) F dt = Inr (None, None, None, None)"
  by (simp add: computeAcceleration_def split: prod.splits)

lemma advance_all_non_finite:
  "advance_all g self (None, None, None, None) steps = Inr (None, None, None, None)"
proof (induction steps)
  case Nil
  show ?case by simp
next
  case (Cons s steps)
  obtain F dt where s: "s = (F, dt)" by (cases s)
  show ?case unfolding s using Cons.IH by (simp only: advance_all.simps advance_non_finite sum.case)
qed

text \<open>
  Claim C5. After \<open>setPendulumLength(0)\<close> an advance step raises nothing and
  returns a state: with finite masses and a finite angle (the values the determinant
  reads besides the length, as they are for an entity that was finite before the
  call) the determinant of the mass matrix is exactly zero; the division by it gives a
  non-finite acceleration in both components, and every component of the new state is
  non-finite. The non-finite values stay: after any further steps, whatever their
  forces and time steps, no error has been raised and every component is still
  non-finite.
\<close>

theorem zero_length_non_finite:
  assumes "cartMass self = Some M" and "pendulumMass self = Some m"
  shows "determinant (setPendulumLength (Some 0) self) (x, Some th, dx, dth) = Some 0 \<and>
         computeAcceleration g (setPendulumLength (Some 0) self) (x, Some th, dx, dth) F
           = (None, None) \<and>
         advance g (setPendulumLength (Some 0) self) (x, Some th, dx, dth) F dt
           = Inr (None, None, None, None) \<and>
         advance_all g (setPendulumLength (Some 0) self) (x, Some th, dx, dth)
             ((F, dt) # steps)
           = Inr (None, None, None, None)"
proof -
  let ?self = "setPendulumLength (Some 0) self"
  let ?q = "(x, Some th, dx, dth)"
  have det: "determinant ?self ?q = Some 0"
    using assms by (simp add: setPendulumLength_def)
  obtain a b c d where mm: "massMatrix ?self ?q = ((a, b), (c, d))"
    by (metis surj_pair)
  obtain r1 r2 where rhs: "rightHandSide g ?self ?q F = (r1, r2)"
    by (metis surj_pair)
  have zero: "ddiv n (Some 0) = None" for n
    by (cases n) simp_all
  have acc: "computeAcceleration g ?self ?q F = (None, None)"
    unfolding computeAcceleration_def det mm rhs by (simp add: zero)
  have adv: "advance g ?self ?q F dt = Inr (None, None, None, None)"
    by (simp add: acc)
  have "advance_all g ?self ?q ((F, dt) # steps)
      = advance_all g ?self (None, None, None, None) steps"
    by (simp only: advance_all.simps adv sum.case)
  with det acc adv show ?thesis by (simp only: advance_all_non_finite simp_thms)
qed

theorem zero_length_non_finite_witness:
  "getPendulumLength (setPendulumLength (Some 0)
      \<lparr>forceSIN = (), stateSOUT = (), cartMass = Some 1, pendulumMass = Some (1 / 10),
       pendulumLength = Some 1, viscosity = Some (1 / 10)\<rparr>) = Some 0 \<and>
   determinant (setPendulumLength (Some 0)
      \<lparr>forceSIN = (), stateSOUT = (), cartMass = Some 1, pendulumMass = Some (1 / 10),
       pendulumLength = Some 1, viscosity = Some (1 / 10)\<rparr>)
      (Some 0, Some (1 / 10), Some 0, Some 0) = Some 0 \<and>
   advance (Some (981 / 100)) (setPendulumLength (Some 0)
      \<lparr>forceSIN = (), stateSOUT = (), cartMass = Some 1, pendulumMass = Some (1 / 10),
       pendulumLength = Some 1, viscosity = Some (1 / 10)\<rparr>)
      (Some 0, Some (1 / 10), Some 0, Some 0) (Some 0) (Some (1 / 100))
     = Inr (None, None, None, None) \<and>
   advance_all (Some (981 / 100)) (setPendulumLength (Some 0)
      \<lparr>forceSIN = (), stateSOUT = (), cartMass = Some 1, pendulumMass = Some (1 / 10),
       pendulumLength = Some 1, viscosity = Some (1 / 10)\<rparr>)
      (Some 0, Some (1 / 10), Some 0, Some 0)
      [(Some 0, Some (1 / 100)), (Some 0, Some (1 / 100)), (Some 5, Some (1 / 2))]
     = Inr (None, None, None, None)"
  using zero_length_non_finite [where self = "\<lparr>forceSIN = (), stateSOUT = (),
      cartMass = Some 1, pendulumMass = Some (1 / 10), pendulumLength = Some 1,
      viscosity = Some (1 / 10)\<rparr>" and M = 1 and m = "1 / 10"
      and x = "Some 0" and th = "1 / 10" and dx = "Some 0" and dth = "Some 0"
      and g = "Some (981 / 100)" and F = "Some 0" and dt = "Some (1 / 100)"
      and steps = "[(Some 0, Some (1 / 100)), (Some 5, Some (1 / 2))]"]
  by (simp add: getPendulumLength_def setPendulumLength_def)

end
